theory Spec2Isabelle
  imports Complex_Main
begin

section \<open>Python values and exceptions\<close>

text \<open>
  The development embeds \<^verbatim>\<open>src/v.0.7/BatchLabeledEditor.py\<close>. Python floats are
  modelled as exact reals (no rounding of the arithmetic), Python ints as \<open>int\<close>,
  Python strings as \<open>string\<close>. An exception that leaves a function is the \<open>Inl\<close>
  branch of a sum.
\<close>

datatype exn =
    TypeError
  | ValueError
  | KeyError
  | AttributeError
  | ZeroDivisionError
  | UnboundLocalError
  | CvError

text \<open>The values \<^verbatim>\<open>json.load\<close> produces, and the arguments a caller may hand to a setter.\<close>

datatype pyval =
    PNone
  | PBool bool
  | PInt int
  | PFloat real
  | PStr string
  | PList "pyval list"
  | PDict "(string \<times> pyval) list"

text \<open>\<^verbatim>\<open>int(x)\<close> on a float truncates toward zero.\<close>

definition py_int :: "real \<Rightarrow> int" where
  "py_int r = (if 0 \<le> r then \<lfloor>r\<rfloor> else \<lceil>r\<rceil>)"

text \<open>
  \<^verbatim>\<open>isinstance(value, int)\<close>: ints and bools pass (\<^verbatim>\<open>bool\<close> is a subclass of
  \<^verbatim>\<open>int\<close>, with \<^verbatim>\<open>True == 1\<close> and \<^verbatim>\<open>False == 0\<close>); the result is the integer the
  value compares and computes as.
\<close>

fun isinstance_int :: "pyval \<Rightarrow> int option" where
  "isinstance_int (PInt i) = Some i"
| "isinstance_int (PBool b) = Some (if b then 1 else 0)"
| "isinstance_int _ = None"

section \<open>Edit modes\<close>

datatype EditMode = HIGHLIGHT | BLUR | PIXELATE | DARKEN | GRAYSCALE | INVERT | OUTLINE

fun mode_value :: "EditMode \<Rightarrow> string" where
  "mode_value HIGHLIGHT = ''highlight''"
| "mode_value BLUR = ''blur''"
| "mode_value PIXELATE = ''pixelate''"
| "mode_value DARKEN = ''darken''"
| "mode_value GRAYSCALE = ''grayscale''"
| "mode_value INVERT = ''invert''"
| "mode_value OUTLINE = ''outline''"

text \<open>\<^verbatim>\<open>list(EditMode)\<close>: the members in definition order.\<close>

definition EditMode_members :: "EditMode list" where
  "EditMode_members = [HIGHLIGHT, BLUR, PIXELATE, DARKEN, GRAYSCALE, INVERT, OUTLINE]"

text \<open>
  \<^verbatim>\<open>EditMode(v)\<close>: the member whose value equals \<open>v\<close>; \<open>None\<close> stands for the
  \<^verbatim>\<open>ValueError\<close> raised when there is none (also for a value that is no string).
\<close>

definition EditMode_of :: "pyval \<Rightarrow> EditMode option" where
  "EditMode_of v = List.find (\<lambda>m. PStr (mode_value m) = v) EditMode_members"

section \<open>The editor object\<close>

text \<open>A committed circle: the dict appended by \<^verbatim>\<open>_exit_label_input_mode\<close>.\<close>

record circle =
  center :: "int \<times> int"
  radius :: int
  mode :: EditMode
  label :: string

text \<open>
  The attributes of \<^verbatim>\<open>BatchLabeledEditor\<close> that decide control flow and geometry.
  The image buffers are left to the compositor section; \<open>cur_center\<close> is
  \<^verbatim>\<open>self.center\<close> (\<open>None\<close> until the first left-button press), and
  \<open>blur_kernel\<close>, \<open>pixelate_size\<close> are the private attributes behind the properties
  of the same names.
\<close>

record editor =
  circles :: "circle list"
  drawing :: bool
  cur_center :: "(int \<times> int) option"
  current_radius :: int
  current_label :: string
  label_input_mode :: bool
  zoom_level :: real
  min_zoom :: real
  max_zoom :: real
  pan_x :: int
  pan_y :: int
  is_panning :: bool
  pan_start_x :: int
  pan_start_y :: int
  last_zoom_time :: real
  current_mode :: EditMode
  blur_kernel :: int
  pixelate_size :: int
  highlight_alpha :: real
  show_labels :: bool

text \<open>The state \<^verbatim>\<open>__init__\<close> sets up before the first image is loaded.\<close>

definition init_editor :: editor where
  "init_editor =
     \<lparr> circles = [], drawing = False, cur_center = None, current_radius = 0,
       current_label = [], label_input_mode = False,
       zoom_level = 1, min_zoom = 1 / 2, max_zoom = 10,
       pan_x = 0, pan_y = 0, is_panning = False, pan_start_x = 0, pan_start_y = 0,
       last_zoom_time = 0, current_mode = HIGHLIGHT,
       blur_kernel = 25, pixelate_size = 10, highlight_alpha = 4 / 10,
       show_labels = True \<rparr>"

subsection \<open>Effect parameter setters\<close>

text \<open>
  A setter either raises, leaving the object as it was, or assigns. The result is the
  exception raised (if any) together with the object afterwards.
\<close>

definition blur_kernel_setter :: "pyval \<Rightarrow> editor \<Rightarrow> exn option \<times> editor" where
  "blur_kernel_setter v e =
     (case isinstance_int v of
        None \<Rightarrow> (Some TypeError, e)
      | Some i \<Rightarrow>
          if i \<le> 0 then (Some ValueError, e)
          else if i mod 2 = 0 then (Some ValueError, e)
          else (None, e\<lparr>blur_kernel := i\<rparr>))"

definition pixelate_size_setter :: "pyval \<Rightarrow> editor \<Rightarrow> exn option \<times> editor" where
  "pixelate_size_setter v e =
     (case isinstance_int v of
        None \<Rightarrow> (Some TypeError, e)
      | Some i \<Rightarrow>
          if i \<le> 0 then (Some ValueError, e)
          else (None, e\<lparr>pixelate_size := i\<rparr>))"

section \<open>Viewport and pointer input\<close>


definition MAX_RECOMMENDED_CIRCLES :: nat where
  "MAX_RECOMMENDED_CIRCLES = 30"



text \<open>The OpenCV mouse events the callback tells apart; every other event is \<open>EVENT_OTHER\<close>.\<close>

datatype mouse_event =
    EVENT_MOUSEMOVE
  | EVENT_LBUTTONDOWN
  | EVENT_RBUTTONDOWN
  | EVENT_LBUTTONUP
  | EVENT_RBUTTONUP
  | EVENT_MOUSEWHEEL
  | EVENT_OTHER



section \<open>Label input and the key loop\<close>





definition ebind :: "exn + 'a \<Rightarrow> ('a \<Rightarrow> exn + 'b) \<Rightarrow> exn + 'b" where
  "ebind m f = (case m of Inl err \<Rightarrow> Inl err | Inr v \<Rightarrow> f v)"


















section \<open>Effect compositor\<close>

text \<open>
  A BGR image is its shape and its pixels by row and column; a single-channel array
  (a mask, a grayscale image) likewise. Reads outside the shape are never made by the
  model.
\<close>

type_synonym pixel = "nat \<times> nat \<times> nat"

record image =
  rows :: nat
  cols :: nat
  pix :: "nat \<Rightarrow> nat \<Rightarrow> pixel"

record plane =
  prows :: nat
  pcols :: nat
  val :: "nat \<Rightarrow> nat \<Rightarrow> nat"

text \<open>
  The OpenCV functions the compositor calls, as parameters: each returns \<open>None\<close> where
  the call raises. \<open>cv_circle_plane\<close> and \<open>cv_circle\<close> are \<^verbatim>\<open>cv2.circle\<close> on a
  single-channel array and on an image (array, centre, radius, colour, thickness);
  \<open>cv_resize\<close> is \<^verbatim>\<open>cv2.resize\<close> with \<^verbatim>\<open>INTER_NEAREST\<close> and target \<open>(width, height)\<close>;
  \<open>cv_getTextSize\<close> is \<^verbatim>\<open>cv2.getTextSize\<close> with the editor's font (text, scale,
  thickness), giving \<open>((width, height), baseline)\<close>.
\<close>

record cv2 =
  cv_circle_plane :: "plane \<Rightarrow> int \<times> int \<Rightarrow> int \<Rightarrow> nat \<Rightarrow> int \<Rightarrow> plane option"
  cv_circle :: "image \<Rightarrow> int \<times> int \<Rightarrow> int \<Rightarrow> pixel \<Rightarrow> int \<Rightarrow> image option"
  cv_addWeighted :: "image \<Rightarrow> real \<Rightarrow> image \<Rightarrow> real \<Rightarrow> real \<Rightarrow> image option"
  cv_GaussianBlur :: "image \<Rightarrow> int \<times> int \<Rightarrow> real \<Rightarrow> image option"
  cv_resize :: "image \<Rightarrow> int \<times> int \<Rightarrow> image option"
  cv_BGR2GRAY :: "image \<Rightarrow> plane option"
  cv_GRAY2BGR :: "plane \<Rightarrow> image option"
  cv_bitwise_not :: "image \<Rightarrow> image option"
  cv_getTextSize :: "string \<Rightarrow> real \<Rightarrow> nat \<Rightarrow> (int \<times> int) \<times> int"

text \<open>\<^verbatim>\<open>np.zeros(shape, dtype=np.uint8)\<close>, \<^verbatim>\<open>np.full_like\<close>, \<^verbatim>\<open>np.zeros_like\<close>.\<close>

definition np_zeros :: "nat \<times> nat \<Rightarrow> plane" where
  "np_zeros shape = \<lparr> prows = fst shape, pcols = snd shape, val = (\<lambda>y x. 0) \<rparr>"

definition np_full_like :: "image \<Rightarrow> nat \<Rightarrow> image" where
  "np_full_like img v = img\<lparr>pix := (\<lambda>y x. (v, v, v))\<rparr>"

definition np_zeros_like :: "image \<Rightarrow> image" where
  "np_zeros_like img = np_full_like img 0"

text \<open>
  \<^verbatim>\<open>np.where(mask[:, :, np.newaxis] == 255, a, b)\<close> for arrays of one shape: the pixel
  of \<open>a\<close> where the mask is 255, the pixel of \<open>b\<close> elsewhere.
\<close>

definition np_where :: "plane \<Rightarrow> image \<Rightarrow> image \<Rightarrow> image" where
  "np_where msk a b = b\<lparr>pix := (\<lambda>y x. if val msk y x = 255 then pix a y x else pix b y x)\<rparr>"

text \<open>\<^verbatim>\<open>self.mode_colors\<close>.\<close>

fun mode_colors :: "EditMode \<Rightarrow> pixel" where
  "mode_colors HIGHLIGHT = (0, 255, 0)"
| "mode_colors BLUR = (255, 0, 0)"
| "mode_colors PIXELATE = (0, 0, 255)"
| "mode_colors DARKEN = (128, 128, 128)"
| "mode_colors GRAYSCALE = (200, 200, 200)"
| "mode_colors INVERT = (255, 255, 0)"
| "mode_colors OUTLINE = (0, 255, 255)"

text \<open>
  The branches of \<^verbatim>\<open>_apply_effect\<close> after the mask is built; \<open>None\<close> when a call in
  the branch raises (for Pixelate also the \<^verbatim>\<open>ZeroDivisionError\<close> of
  \<^verbatim>\<open>h // self.pixelate_size\<close>). Outline has no branch: the image is returned as it is.
\<close>

definition effect_branch :: "cv2 \<Rightarrow> editor \<Rightarrow> image \<Rightarrow> plane \<Rightarrow> EditMode \<Rightarrow> image option" where
  "effect_branch lib e img msk m =
     (case m of
        HIGHLIGHT \<Rightarrow>
          (case cv_addWeighted lib img (1 - highlight_alpha e) (np_full_like img 255)
                  (highlight_alpha e) 0 of
             None \<Rightarrow> None
           | Some highlighted \<Rightarrow> Some (np_where msk highlighted img))
      | BLUR \<Rightarrow>
          (case cv_GaussianBlur lib img (blur_kernel e, blur_kernel e) 0 of
             None \<Rightarrow> None
           | Some blurred \<Rightarrow> Some (np_where msk blurred img))
      | PIXELATE \<Rightarrow>
          (if pixelate_size e = 0 then None
           else
             let h = int (rows img); w = int (cols img);
                 temp_h = max 1 (h div pixelate_size e);
                 temp_w = max 1 (w div pixelate_size e)
             in (case cv_resize lib img (temp_w, temp_h) of
                   None \<Rightarrow> None
                 | Some temp \<Rightarrow>
                     (case cv_resize lib temp (w, h) of
                        None \<Rightarrow> None
                      | Some pixelated \<Rightarrow> Some (np_where msk pixelated img))))
      | DARKEN \<Rightarrow>
          (case cv_addWeighted lib img (1 / 2) (np_zeros_like img) (1 / 2) 0 of
             None \<Rightarrow> None
           | Some darkened \<Rightarrow> Some (np_where msk darkened img))
      | GRAYSCALE \<Rightarrow>
          (case cv_BGR2GRAY lib img of
             None \<Rightarrow> None
           | Some gray \<Rightarrow>
               (case cv_GRAY2BGR lib gray of
                  None \<Rightarrow> None
                | Some gray_bgr \<Rightarrow> Some (np_where msk gray_bgr img)))
      | INVERT \<Rightarrow>
          (case cv_bitwise_not lib img of
             None \<Rightarrow> None
           | Some inverted \<Rightarrow> Some (np_where msk inverted img))
      | OUTLINE \<Rightarrow> Some img)"

text \<open>The diagnostic the handler of \<^verbatim>\<open>_apply_effect\<close> prints (without the exception text).\<close>

definition effect_error :: "EditMode \<Rightarrow> string" where
  "effect_error m = ''Error applying '' @ mode_value m @ '' effect''"

text \<open>
  \<^verbatim>\<open>_apply_effect\<close>: the image returned and the diagnostics printed. \<^verbatim>\<open>mode\<close> is
  bound only after the mask is built, so when building the mask raises, the handler's
  own \<^verbatim>\<open>mode.value\<close> raises \<^verbatim>\<open>UnboundLocalError\<close>, which leaves the function.
\<close>

definition apply_effect :: "cv2 \<Rightarrow> editor \<Rightarrow> image \<Rightarrow> circle \<Rightarrow> exn + (image \<times> string list)" where
  "apply_effect lib e img c =
     (case cv_circle_plane lib (np_zeros (rows img, cols img)) (center c) (radius c) 255 (- 1) of
        None \<Rightarrow> Inl UnboundLocalError
      | Some msk \<Rightarrow>
          (case effect_branch lib e img msk (mode c) of
             None \<Rightarrow> Inr (img, [effect_error (mode c)])
           | Some img' \<Rightarrow> Inr (img', [])))"

text \<open>
  The loop of \<^verbatim>\<open>_apply_all_effects\<close> from an accumulated image and the diagnostics
  printed so far; the border is drawn outside any \<^verbatim>\<open>try\<close>.
\<close>

fun effects_loop ::
  "cv2 \<Rightarrow> editor \<Rightarrow> circle list \<Rightarrow> image \<times> string list \<Rightarrow> exn + (image \<times> string list)" where
  "effects_loop lib e [] acc = Inr acc"
| "effects_loop lib e (c # cs) acc =
     (case apply_effect lib e (fst acc) c of
        Inl err \<Rightarrow> Inl err
      | Inr (img, printed) \<Rightarrow>
          (case cv_circle lib img (center c) (radius c) (mode_colors (mode c)) 2 of
             None \<Rightarrow> Inl CvError
           | Some outlined \<Rightarrow> effects_loop lib e cs (outlined, snd acc @ printed)))"

text \<open>\<^verbatim>\<open>_apply_all_effects\<close> on the scaled source image: the new \<^verbatim>\<open>output_image\<close>.\<close>

definition apply_all_effects :: "cv2 \<Rightarrow> editor \<Rightarrow> image \<Rightarrow> exn + (image \<times> string list)" where
  "apply_all_effects lib e scaled_image = effects_loop lib e (circles e) (scaled_image, [])"

text \<open>
  The whole-image transform of each mode, as the branches of \<^verbatim>\<open>_apply_effect\<close>
  compute it before masking (\<open>None\<close> where the computation raises).
\<close>

definition transformed :: "cv2 \<Rightarrow> editor \<Rightarrow> EditMode \<Rightarrow> image \<Rightarrow> image option" where
  "transformed lib e m img =
     (case m of
        HIGHLIGHT \<Rightarrow>
          cv_addWeighted lib img (1 - highlight_alpha e) (np_full_like img 255) (highlight_alpha e) 0
      | BLUR \<Rightarrow> cv_GaussianBlur lib img (blur_kernel e, blur_kernel e) 0
      | PIXELATE \<Rightarrow>
          (if pixelate_size e = 0 then None
           else
             (case cv_resize lib img (max 1 (int (cols img) div pixelate_size e),
                                      max 1 (int (rows img) div pixelate_size e)) of
                None \<Rightarrow> None
              | Some temp \<Rightarrow> cv_resize lib temp (int (cols img), int (rows img))))
      | DARKEN \<Rightarrow> cv_addWeighted lib img (1 / 2) (np_zeros_like img) (1 / 2) 0
      | GRAYSCALE \<Rightarrow>
          (case cv_BGR2GRAY lib img of None \<Rightarrow> None | Some gray \<Rightarrow> cv_GRAY2BGR lib gray)
      | INVERT \<Rightarrow> cv_bitwise_not lib img
      | OUTLINE \<Rightarrow> Some img)"

text \<open>
  A small executable stand-in for the OpenCV calls, to run the compositor on concrete
  images: a filled circle is the disc of the radius, a border the pixels at exactly
  the radius, a negative radius is refused, blending rounds down and saturates, blur is
  refused for a kernel that is not odd and positive and otherwise leaves the image,
  resizing samples the nearest source pixel, a text is 10 wide per character, 12 high,
  with a baseline of 4.
\<close>

definition stub_blend :: "real \<Rightarrow> nat \<Rightarrow> real \<Rightarrow> nat \<Rightarrow> real \<Rightarrow> nat" where
  "stub_blend a p b q g = nat (min 255 (max 0 \<lfloor>a * real p + b * real q + g\<rfloor>))"

definition stub_cv2 :: cv2 where
  "stub_cv2 =
     \<lparr> cv_circle_plane = (\<lambda>p c r v t.
         if r < 0 then None
         else Some (p\<lparr>val := (\<lambda>y x. if (int x - fst c)\<^sup>2 + (int y - snd c)\<^sup>2 \<le> r\<^sup>2
                                       then v else val p y x)\<rparr>)),
       cv_circle = (\<lambda>img c r col t.
         if r < 0 then None
         else Some (img\<lparr>pix := (\<lambda>y x. if (int x - fst c)\<^sup>2 + (int y - snd c)\<^sup>2 = r\<^sup>2
                                         then col else pix img y x)\<rparr>)),
       cv_addWeighted = (\<lambda>a al b be g.
         Some (a\<lparr>pix := (\<lambda>y x.
           (case (pix a y x, pix b y x) of
              ((b1, g1, r1), (b2, g2, r2)) \<Rightarrow>
                (stub_blend al b1 be b2 g, stub_blend al g1 be g2 g, stub_blend al r1 be r2 g)))\<rparr>)),
       cv_GaussianBlur = (\<lambda>img k s.
         if fst k \<le> 0 \<or> even (fst k) \<or> snd k \<le> 0 \<or> even (snd k) then None else Some img),
       cv_resize = (\<lambda>img d.
         if fst d \<le> 0 \<or> snd d \<le> 0 then None
         else Some \<lparr> rows = nat (snd d), cols = nat (fst d),
                     pix = (\<lambda>y x. pix img (y * rows img div nat (snd d))
                                          (x * cols img div nat (fst d))) \<rparr>),
       cv_BGR2GRAY = (\<lambda>img.
         Some \<lparr> prows = rows img, pcols = cols img,
                 val = (\<lambda>y x. case pix img y x of (b, g, r) \<Rightarrow> (b + g + r) div 3) \<rparr>),
       cv_GRAY2BGR = (\<lambda>p.
         Some \<lparr> rows = prows p, cols = pcols p, pix = (\<lambda>y x. (val p y x, val p y x, val p y x)) \<rparr>),
       cv_bitwise_not = (\<lambda>img.
         Some (img\<lparr>pix := (\<lambda>y x. case pix img y x of (b, g, r) \<Rightarrow> (255 - b, 255 - g, 255 - r))\<rparr>)),
       cv_getTextSize = (\<lambda>txt scale thickness. ((10 * int (length txt), 12), 4)) \<rparr>"

text \<open>A 300 by 300 image of one colour.\<close>

definition flat_image :: "pixel \<Rightarrow> image" where
  "flat_image p = \<lparr> rows = 300, cols = 300, pix = (\<lambda>y x. p) \<rparr>"

text \<open>
  Inputs for running the compositor with \<open>stub_cv2\<close>. \<open>pixelate_zero\<close> is an editor
  whose block factor is zero, with one Pixelate circle; \<open>invert_left\<close> and
  \<open>invert_right\<close> are two overlapping Invert circles, and the images and the mask after
  them are the intermediate results of compositing the two over a flat image.
\<close>

definition face_circle :: circle where
  "face_circle = \<lparr>center = (100, 100), radius = 50, mode = PIXELATE, label = ''face''\<rparr>"

definition pixelate_zero :: editor where
  "pixelate_zero = init_editor\<lparr>pixelate_size := 0, circles := [face_circle]\<rparr>"

definition face_mask :: plane where
  "face_mask = the (cv_circle_plane stub_cv2 (np_zeros (300, 300)) (100, 100) 50 255 (- 1))"

definition face_bordered :: image where
  "face_bordered = the (cv_circle stub_cv2 (flat_image (10, 20, 30)) (100, 100) 50 (0, 0, 255) 2)"

definition invert_left :: circle where
  "invert_left = \<lparr>center = (100, 100), radius = 50, mode = INVERT, label = []\<rparr>"

definition invert_right :: circle where
  "invert_right = \<lparr>center = (130, 100), radius = 50, mode = INVERT, label = []\<rparr>"

definition after_left :: image where
  "after_left =
     fst (projr (apply_all_effects stub_cv2 (init_editor\<lparr>circles := [invert_left]\<rparr>)
                  (flat_image (10, 20, 30))))"

definition right_mask :: plane where
  "right_mask = the (cv_circle_plane stub_cv2 (np_zeros (300, 300)) (130, 100) 50 255 (- 1))"

definition after_left_inverted :: image where
  "after_left_inverted = the (cv_bitwise_not stub_cv2 after_left)"

definition after_right :: image where
  "after_right =
     the (cv_circle stub_cv2 (np_where right_mask after_left_inverted after_left) (130, 100) 50
            (255, 255, 0) 2)"

section \<open>Saving and restoring the circles\<close>

text \<open>
  The list \<^verbatim>\<open>save_current\<close> builds under \<^verbatim>\<open>'objects'\<close>: one dict per circle, numbered
  from 1 by \<^verbatim>\<open>enumerate(self.circles, 1)\<close>, the centre tuple turned into a list.
\<close>

fun export_from :: "nat \<Rightarrow> circle list \<Rightarrow> pyval list" where
  "export_from idx [] = []"
| "export_from idx (c # cs) =
     PDict [(''id'', PInt (int idx)),
            (''label'', PStr (label c)),
            (''mode'', PStr (mode_value (mode c))),
            (''center'', PList [PInt (fst (center c)), PInt (snd (center c))]),
            (''radius'', PInt (radius c))]
     # export_from (Suc idx) cs"

text \<open>
  \<^verbatim>\<open>labels_data\<close> as handed to \<^verbatim>\<open>json.dump\<close>. What \<^verbatim>\<open>json.load\<close> later reads from
  the file is taken to be this value again.
\<close>

definition labels_data :: "string \<Rightarrow> string \<Rightarrow> circle list \<Rightarrow> pyval" where
  "labels_data source_image timestamp cs =
     PDict [(''source_image'', PStr source_image),
            (''timestamp'', PStr timestamp),
            (''objects'', PList (export_from 1 cs))]"

text \<open>
  The dict operations the loader uses. \<^verbatim>\<open>d.get(k, default)\<close> exists on dicts only;
  \<^verbatim>\<open>d[k]\<close> raises \<^verbatim>\<open>KeyError\<close> for a missing key (and \<^verbatim>\<open>TypeError\<close> on a value
  that cannot be indexed by a string); \<^verbatim>\<open>tuple(v)\<close> and \<^verbatim>\<open>for x in v\<close> run through
  a list, the characters of a string or the keys of a dict and raise \<^verbatim>\<open>TypeError\<close>
  on anything else.
\<close>

fun py_get :: "pyval \<Rightarrow> string \<Rightarrow> pyval \<Rightarrow> exn + pyval" where
  "py_get (PDict kvs) k dflt = Inr (case map_of kvs k of None \<Rightarrow> dflt | Some v \<Rightarrow> v)"
| "py_get _ k dflt = Inl AttributeError"

fun py_getitem :: "pyval \<Rightarrow> string \<Rightarrow> exn + pyval" where
  "py_getitem (PDict kvs) k = (case map_of kvs k of None \<Rightarrow> Inl KeyError | Some v \<Rightarrow> Inr v)"
| "py_getitem _ k = Inl TypeError"

fun py_iter :: "pyval \<Rightarrow> exn + pyval list" where
  "py_iter (PList xs) = Inr xs"
| "py_iter (PStr s) = Inr (map (\<lambda>ch. PStr [ch]) s)"
| "py_iter (PDict kvs) = Inr (map (\<lambda>kv. PStr (fst kv)) kvs)"
| "py_iter _ = Inl TypeError"

text \<open>
  A circle as the loader builds it from whatever the file holds: the centre is a tuple
  of arbitrary values, radius and label are arbitrary values.
\<close>

record loaded_circle =
  raw_center :: "pyval list"
  raw_radius :: pyval
  raw_mode :: EditMode
  raw_label :: pyval

text \<open>The body of the \<^verbatim>\<open>for obj in data.get('objects', [])\<close> loop of \<^verbatim>\<open>_load_current_image\<close>.\<close>

definition load_object :: "pyval \<Rightarrow> exn + loaded_circle" where
  "load_object obj =
     ebind (py_get obj ''mode'' (PStr ''highlight'')) (\<lambda>mode_value.
       let m = (case EditMode_of mode_value of None \<Rightarrow> HIGHLIGHT | Some m' \<Rightarrow> m')
       in ebind (py_getitem obj ''center'') (\<lambda>c.
          ebind (py_iter c) (\<lambda>ct.
          ebind (py_getitem obj ''radius'') (\<lambda>r.
          ebind (py_get obj ''label'' (PStr [])) (\<lambda>l.
            Inr \<lparr> raw_center = ct, raw_radius = r, raw_mode = m, raw_label = l \<rparr>)))))"

fun load_objects :: "pyval list \<Rightarrow> exn + loaded_circle list" where
  "load_objects [] = Inr []"
| "load_objects (obj # objs) =
     ebind (load_object obj) (\<lambda>c. ebind (load_objects objs) (\<lambda>cs. Inr (c # cs)))"

text \<open>
  The \<^verbatim>\<open>try\<close> block that restores \<^verbatim>\<open>self.circles\<close> from the parsed file, and the
  store it leaves: its handler prints the error and empties the store.
\<close>

definition load_json :: "pyval \<Rightarrow> exn + loaded_circle list" where
  "load_json data =
     ebind (py_get data ''objects'' (PList [])) (\<lambda>objs. ebind (py_iter objs) load_objects)"

definition restore_circles :: "pyval \<Rightarrow> loaded_circle list" where
  "restore_circles data = (case load_json data of Inl err \<Rightarrow> [] | Inr cs \<Rightarrow> cs)"

text \<open>A committed circle as the loader would hold it.\<close>

definition as_loaded :: "circle \<Rightarrow> loaded_circle" where
  "as_loaded c =
     \<lparr> raw_center = [PInt (fst (center c)), PInt (snd (center c))],
       raw_radius = PInt (radius c), raw_mode = mode c, raw_label = PStr (label c) \<rparr>"

text \<open>
  A record the loop body gets through: a dict with a \<^verbatim>\<open>'center'\<close> that \<^verbatim>\<open>tuple\<close>
  accepts and a \<^verbatim>\<open>'radius'\<close>.
\<close>

fun loadable :: "pyval \<Rightarrow> bool" where
  "loadable (PDict kvs) =
     ((case map_of kvs ''center'' of None \<Rightarrow> False | Some c \<Rightarrow> \<not> isl (py_iter c))
      \<and> map_of kvs ''radius'' \<noteq> None)"
| "loadable _ = False"

text \<open>The mode and the label the loader gives a dict: the stored ones, or the defaults.\<close>

definition mode_or_default :: "(string \<times> pyval) list \<Rightarrow> EditMode" where
  "mode_or_default kvs =
     (case map_of kvs ''mode'' of
        None \<Rightarrow> HIGHLIGHT
      | Some v \<Rightarrow> (case EditMode_of v of None \<Rightarrow> HIGHLIGHT | Some m \<Rightarrow> m))"

definition label_or_default :: "(string \<times> pyval) list \<Rightarrow> pyval" where
  "label_or_default kvs = (case map_of kvs ''label'' of None \<Rightarrow> PStr [] | Some l \<Rightarrow> l)"



definition odd_fields :: "(string \<times> pyval) list" where
  "odd_fields =
     [(''id'', PInt 1), (''mode'', PStr ''Blur''),
      (''center'', PList [PInt 30, PInt 40]), (''radius'', PInt 50)]"



section \<open>Label layout\<close>

text \<open>\<^verbatim>\<open>str(n)\<close> for a natural number, and \<^verbatim>\<open>s.upper()\<close> on ASCII letters.\<close>

definition digit_char :: "nat \<Rightarrow> char" where
  "digit_char d = char_of (48 + d)"

function str_nat :: "nat \<Rightarrow> string" where
  "str_nat n = (if n < 10 then [digit_char n] else str_nat (n div 10) @ [digit_char (n mod 10)])"
  by pat_completeness auto
termination
  by (relation "measure id") auto

declare str_nat.simps [simp del]

definition py_upper_char :: "char \<Rightarrow> char" where
  "py_upper_char c =
     (if 97 \<le> (of_char c :: nat) \<and> (of_char c :: nat) \<le> 122
      then char_of ((of_char c :: nat) - 32) else c)"

text \<open>\<^verbatim>\<open>circle['mode'].value[:3].upper()\<close>.\<close>

definition mode_short :: "EditMode \<Rightarrow> string" where
  "mode_short m = map py_upper_char (take 3 (mode_value m))"

text \<open>\<^verbatim>\<open>f"#{idx} [{mode_short}] {label}"\<close>.\<close>

definition full_label :: "nat \<Rightarrow> circle \<Rightarrow> string" where
  "full_label idx c = ''#'' @ str_nat idx @ '' ['' @ mode_short (mode c) @ ''] '' @ label c"

text \<open>\<^verbatim>\<open>_get_dynamic_label_params\<close>: text scale and thickness from the image size.\<close>

definition get_dynamic_label_params :: "int \<times> int \<Rightarrow> real \<times> nat" where
  "get_dynamic_label_params image_size =
     (let min_dimension = min (fst image_size) (snd image_size)
      in if min_dimension < 200 then (3 / 10, 1)
         else if min_dimension < 400 then (4 / 10, 1)
         else if min_dimension < 800 then (5 / 10, 2)
         else (6 / 10, 2))"

type_synonym rect = "int \<times> int \<times> int \<times> int"

text \<open>\<^verbatim>\<open>_check_label_collision\<close>: the first existing rectangle within the buffer decides.\<close>

fun check_label_collision :: "rect \<Rightarrow> rect list \<Rightarrow> bool" where
  "check_label_collision new_rect [] = False"
| "check_label_collision (x1, y1, x2, y2) ((ex1, ey1, ex2, ey2) # existing_rects) =
     (if \<not> (x2 + 5 < ex1 \<or> x1 - 5 > ex2 \<or> y2 + 5 < ey1 \<or> y1 - 5 > ey2) then True
      else check_label_collision (x1, y1, x2, y2) existing_rects)"

text \<open>
  \<^verbatim>\<open>_find_non_overlapping_position\<close>. The four nested loops visit the positions of
  \<open>candidate_positions\<close> in this order and return at the first one whose rectangle
  lies inside the image and collides with no existing rectangle; \<open>search_position\<close>
  is that search, \<open>None\<close> when the loops run out.
\<close>

definition label_rect_at :: "int \<Rightarrow> int \<Rightarrow> int \<Rightarrow> int \<Rightarrow> int \<Rightarrow> int \<Rightarrow> rect" where
  "label_rect_at pos_x label_y text_w text_h baseline padding =
     (pos_x - padding, label_y - text_h - padding, pos_x + text_w + padding,
      label_y + baseline + padding)"

definition attempts :: "int \<times> int \<Rightarrow> int \<Rightarrow> int \<Rightarrow> int \<Rightarrow> (int \<times> int) list" where
  "attempts c r total_width total_height =
     [(fst c - r, snd c - r - total_height - 10),
      (fst c - r, snd c + r + 20),
      (fst c - r - total_width - 10, snd c - total_height div 2),
      (fst c + r + 10, snd c - total_height div 2),
      (fst c + r + 10, snd c - r - total_height - 10),
      (fst c - r - total_width - 10, snd c - r - total_height - 10),
      (fst c + r + 10, snd c + r + 20),
      (fst c - r - total_width - 10, snd c + r + 20)]"

definition candidate_positions :: "(int \<times> int) list \<Rightarrow> (int \<times> int) list" where
  "candidate_positions bases =
     concat (map (\<lambda>offset.
       concat (map (\<lambda>base.
         concat (map (\<lambda>dx.
           map (\<lambda>dy. (fst base + dx, snd base + dy)) [0, offset, - offset])
           [0, offset, - offset]))
         bases))
       [0, 30, 60, 90, 120])"

definition position_ok ::
  "int \<Rightarrow> int \<Rightarrow> int \<Rightarrow> int \<Rightarrow> int \<times> int \<Rightarrow> rect list \<Rightarrow> int \<times> int \<Rightarrow> bool" where
  "position_ok text_w text_h baseline padding image_size existing_rects pos =
     (let label_rect = label_rect_at (fst pos) (snd pos + text_h) text_w text_h baseline padding
      in case label_rect of (l, t, r, b) \<Rightarrow>
           (l \<ge> padding \<and> t \<ge> padding \<and> r \<le> snd image_size - padding
            \<and> b \<le> fst image_size - padding)
           \<and> \<not> check_label_collision label_rect existing_rects)"

definition search_position ::
  "int \<times> int \<Rightarrow> int \<Rightarrow> int \<Rightarrow> int \<Rightarrow> int \<Rightarrow> int \<Rightarrow> int \<times> int \<Rightarrow> rect list
   \<Rightarrow> (int \<times> int \<times> rect) option" where
  "search_position c r text_w text_h baseline padding image_size existing_rects =
     (let total_width = text_w + 2 * padding;
          total_height = text_h + baseline + 2 * padding
      in case List.find (position_ok text_w text_h baseline padding image_size existing_rects)
                (candidate_positions (attempts c r total_width total_height)) of
           None \<Rightarrow> None
         | Some pos \<Rightarrow>
             Some (fst pos, snd pos + text_h,
                   label_rect_at (fst pos) (snd pos + text_h) text_w text_h baseline padding))"

definition last_resort ::
  "int \<times> int \<Rightarrow> int \<Rightarrow> int \<Rightarrow> int \<Rightarrow> int \<Rightarrow> int \<times> int \<Rightarrow> int \<times> int \<times> rect" where
  "last_resort c text_w text_h baseline padding image_size =
     (let total_width = text_w + 2 * padding;
          pos_x = max padding (min (fst c) (snd image_size - total_width - padding));
          label_y = padding + text_h
      in (pos_x, label_y, label_rect_at pos_x label_y text_w text_h baseline padding))"

definition find_non_overlapping_position ::
  "int \<times> int \<Rightarrow> int \<Rightarrow> int \<Rightarrow> int \<Rightarrow> int \<Rightarrow> int \<Rightarrow> int \<times> int \<Rightarrow> rect list
   \<Rightarrow> int \<times> int \<times> rect" where
  "find_non_overlapping_position c r text_w text_h baseline padding image_size existing_rects =
     (case search_position c r text_w text_h baseline padding image_size existing_rects of
        Some found \<Rightarrow> found
      | None \<Rightarrow> last_resort c text_w text_h baseline padding image_size)"

text \<open>
  What \<^verbatim>\<open>_draw_all_labels_smart\<close> draws for one labelled circle: the numbered text at
  \<open>(lb_x, lb_y)\<close>, the background and border rectangle \<open>lb_rect\<close>, and the connector
  from \<open>lb_line_start\<close> to the circle's centre, in the colour of the mode; with the
  measures of the text the rectangle was computed from.
\<close>

record label_drawn =
  lb_number :: nat
  lb_circle :: circle
  lb_text :: string
  lb_text_w :: int
  lb_text_h :: int
  lb_baseline :: int
  lb_padding :: int
  lb_x :: int
  lb_y :: int
  lb_rect :: rect
  lb_line_start :: "int \<times> int"
  lb_line_end :: "int \<times> int"
  lb_color :: pixel

text \<open>
  The loop \<^verbatim>\<open>for idx, circle in enumerate(self.circles, 1)\<close> of
  \<^verbatim>\<open>_draw_all_labels_smart\<close>, from the index and the rectangles placed so far.
\<close>

fun labels_loop ::
  "cv2 \<Rightarrow> real \<times> nat \<Rightarrow> int \<times> int \<Rightarrow> nat \<Rightarrow> circle list \<Rightarrow> rect list \<Rightarrow> label_drawn list" where
  "labels_loop lib params image_size idx [] existing_rects = []"
| "labels_loop lib params image_size idx (c # cs) existing_rects =
     (if label c = [] then labels_loop lib params image_size (Suc idx) cs existing_rects
      else
        let txt = full_label idx c;
            measured = cv_getTextSize lib txt (fst params) (snd params);
            text_w = fst (fst measured); text_h = snd (fst measured); baseline = snd measured;
            padding = max 2 (py_int (4 * fst params / (1 / 2)));
            found = find_non_overlapping_position (center c) (radius c) text_w text_h baseline
                      padding image_size existing_rects;
            label_x = fst found; label_y = fst (snd found); label_rect = snd (snd found)
        in \<lparr> lb_number = idx, lb_circle = c, lb_text = txt, lb_text_w = text_w,
               lb_text_h = text_h, lb_baseline = baseline, lb_padding = padding,
               lb_x = label_x, lb_y = label_y, lb_rect = label_rect,
               lb_line_start = (label_x + text_w div 2, label_y + baseline + padding),
               lb_line_end = center c, lb_color = mode_colors (mode c) \<rparr>
           # labels_loop lib params image_size (Suc idx) cs (existing_rects @ [label_rect]))"

text \<open>\<^verbatim>\<open>_draw_all_labels_smart\<close> on an image of the given shape: the labels drawn, in order.\<close>

definition draw_all_labels_smart :: "cv2 \<Rightarrow> editor \<Rightarrow> image \<Rightarrow> label_drawn list" where
  "draw_all_labels_smart lib e img =
     (if \<not> show_labels e then []
      else
        let image_size = (int (rows img), int (cols img))
        in labels_loop lib (get_dynamic_label_params image_size) image_size 1 (circles e) [])"

text \<open>
  An editor with two labelled circles of radius 700 around the middle of a 1000 by 1000
  image, and one with an unlabelled circle between two labelled ones.
\<close>

definition wide_image :: image where
  "wide_image = \<lparr> rows = 1000, cols = 1000, pix = (\<lambda>y x. (0, 0, 0)) \<rparr>"

definition two_giants :: editor where
  "two_giants =
     init_editor\<lparr>circles :=
       [\<lparr>center = (500, 500), radius = 700, mode = HIGHLIGHT, label = ''a''\<rparr>,
        \<lparr>center = (500, 500), radius = 700, mode = HIGHLIGHT, label = ''b''\<rparr>]\<rparr>"

definition gap_in_labels :: editor where
  "gap_in_labels =
     init_editor\<lparr>circles :=
       [\<lparr>center = (200, 200), radius = 50, mode = BLUR, label = ''face''\<rparr>,
        \<lparr>center = (500, 500), radius = 40, mode = INVERT, label = []\<rparr>,
        \<lparr>center = (700, 300), radius = 60, mode = DARKEN, label = ''sign''\<rparr>]\<rparr>"

text \<open>
  The two labels \<^verbatim>\<open>_draw_all_labels_smart\<close> draws for \<open>gap_in_labels\<close> on
  \<open>wide_image\<close> with the text measures of \<open>stub_cv2\<close>.
\<close>

definition face_label :: label_drawn where
  "face_label =
     \<lparr> lb_number = 1,
       lb_circle = \<lparr>center = (200, 200), radius = 50, mode = BLUR, label = ''face''\<rparr>,
       lb_text = ''#1 [BLU] face'', lb_text_w = 130, lb_text_h = 12, lb_baseline = 4,
       lb_padding = 4, lb_x = 150, lb_y = 128, lb_rect = (146, 112, 284, 136),
       lb_line_start = (215, 136), lb_line_end = (200, 200), lb_color = (255, 0, 0) \<rparr>"

definition sign_label :: label_drawn where
  "sign_label =
     \<lparr> lb_number = 3,
       lb_circle = \<lparr>center = (700, 300), radius = 60, mode = DARKEN, label = ''sign''\<rparr>,
       lb_text = ''#3 [DAR] sign'', lb_text_w = 130, lb_text_h = 12, lb_baseline = 4,
       lb_padding = 4, lb_x = 640, lb_y = 218, lb_rect = (636, 202, 774, 226),
       lb_line_start = (705, 226), lb_line_end = (700, 300), lb_color = (128, 128, 128) \<rparr>"

section \<open>Properties\<close>

subsection \<open>Effect parameter setters\<close>

text \<open>
  C8. Setting the blur kernel to an even or non-positive integer, or the pixelate size
  to a non-positive integer, raises \<^verbatim>\<open>ValueError\<close> and leaves the editor, hence the
  previous value, as it was; setting the blur kernel of a fresh editor to 24 is rejected
  and the kernel is still 25.
\<close>

theorem setters_reject_invalid:
  "(i \<le> 0 \<or> even i \<longrightarrow> blur_kernel_setter (PInt i) e = (Some ValueError, e))
   \<and> (i \<le> 0 \<longrightarrow> pixelate_size_setter (PInt i) e = (Some ValueError, e))
   \<and> fst (blur_kernel_setter (PInt 24) init_editor) = Some ValueError
   \<and> blur_kernel (snd (blur_kernel_setter (PInt 24) init_editor)) = 25"
  by (auto simp: blur_kernel_setter_def pixelate_size_setter_def init_editor_def)

theorem setters_reject_invalid_witness:
  "blur_kernel_setter (PInt (-3)) init_editor = (Some ValueError, init_editor)
   \<and> blur_kernel_setter (PInt 8) init_editor = (Some ValueError, init_editor)
   \<and> pixelate_size_setter (PInt 0) init_editor = (Some ValueError, init_editor)
   \<and> blur_kernel (snd (blur_kernel_setter (PInt 24) init_editor)) = 25"
  using setters_reject_invalid [of "-3" init_editor] setters_reject_invalid [of 8 init_editor]
    setters_reject_invalid [of 0 init_editor]
  by simp

subsection \<open>Zoom anchoring\<close>







subsection \<open>Label input\<close>









subsection \<open>Keys of the main loop\<close>


















subsection \<open>Effect compositor\<close>

lemma np_where_same: "np_where msk img img = img"
  by (simp add: np_where_def)

lemma effect_branch_transformed:
  "effect_branch lib e img msk m =
     (case transformed lib e m img of None \<Rightarrow> None | Some t \<Rightarrow> Some (np_where msk t img))"
  by (cases m)
     (simp_all add: effect_branch_def transformed_def np_where_same Let_def split: option.splits)

lemma ebind_Inr: "ebind (Inr v) f = f v"
  by (simp add: ebind_def)

lemma ebind_Inl: "ebind (Inl x) f = Inl x"
  by (simp add: ebind_def)

lemma effects_loop_append:
  "effects_loop lib e (cs @ ds) acc = ebind (effects_loop lib e cs acc) (effects_loop lib e ds)"
proof (induction cs arbitrary: acc)
  case Nil
  show ?case by (simp add: ebind_Inr)
next
  case (Cons c cs)
  show ?case
    by (simp add: Cons.IH ebind_Inl split: sum.splits option.splits prod.splits)
qed

lemma effect_branch_circles:
  "effect_branch lib (e\<lparr>circles := cs\<rparr>) img msk m = effect_branch lib e img msk m"
  by (cases m) (simp_all add: effect_branch_def)

lemma apply_effect_circles: "apply_effect lib (e\<lparr>circles := cs\<rparr>) img c = apply_effect lib e img c"
  by (simp add: apply_effect_def effect_branch_circles split: option.splits)

lemma effects_loop_circles: "effects_loop lib (e\<lparr>circles := cs\<rparr>) ds acc = effects_loop lib e ds acc"
  by (induction ds arbitrary: acc)
     (simp_all add: apply_effect_circles split: sum.splits option.splits prod.splits)

lemma apply_effect_ok:
  assumes "cv_circle_plane lib (np_zeros (rows img, cols img)) (center c) (radius c) 255 (- 1) = Some msk"
    and "transformed lib e (mode c) img = Some t"
  shows "apply_effect lib e img c = Inr (np_where msk t img, [])"
  using assms by (simp add: apply_effect_def effect_branch_transformed)

lemma apply_effect_raises:
  assumes "cv_circle_plane lib (np_zeros (rows img, cols img)) (center c) (radius c) 255 (- 1) = Some msk"
    and "transformed lib e (mode c) img = None"
  shows "apply_effect lib e img c = Inr (img, [effect_error (mode c)])"
  using assms by (simp add: apply_effect_def effect_branch_transformed)

lemma stub_invert_left:
  "apply_all_effects stub_cv2 (init_editor\<lparr>circles := [invert_left]\<rparr>) (flat_image (10, 20, 30))
     = Inr (after_left, [])"
  by (simp add: after_left_def apply_all_effects_def apply_effect_def effect_branch_def
      invert_left_def stub_cv2_def flat_image_def np_zeros_def np_where_def)

lemma after_left_pix:
  "pix after_left 100 120 = (245, 235, 225)" "rows after_left = 300" "cols after_left = 300"
  by (simp_all add: after_left_def apply_all_effects_def apply_effect_def effect_branch_def
      invert_left_def stub_cv2_def flat_image_def np_zeros_def np_where_def)

text \<open>
  When the mask of a circle cannot be built, the exception raised in the handler leaves
  \<^verbatim>\<open>_apply_effect\<close> and ends the loop: no later circle is composited.
\<close>

lemma mask_failure_ends_loop:
  assumes "cv_circle_plane lib (np_zeros (rows (fst acc), cols (fst acc))) (center c) (radius c)
             255 (- 1) = None"
  shows "effects_loop lib e (c # cs) acc = Inl UnboundLocalError"
  using assms by (simp add: apply_effect_def)

text \<open>
  C2. The compositor runs through the store in order, and each circle's transform is
  computed from the image accumulated so far (earlier effects and borders included), not
  from the source: compositing \<open>cs @ [c]\<close> is compositing \<open>cs\<close> and then \<open>c\<close> on the
  result, and where the mask of \<open>c\<close> is set, the pixel before the border of \<open>c\<close> is
  drawn is that of the transform of the accumulated image, elsewhere that of the
  accumulated image.
\<close>

theorem effects_compose_in_store_order:
  "effects_loop lib e (cs @ [c]) acc = ebind (effects_loop lib e cs acc) (effects_loop lib e [c])
   \<and> (apply_all_effects lib (e\<lparr>circles := cs\<rparr>) src = Inr (acc_img, printed) \<longrightarrow>
        cv_circle_plane lib (np_zeros (rows acc_img, cols acc_img)) (center c) (radius c) 255 (- 1)
          = Some msk \<longrightarrow>
        transformed lib e (mode c) acc_img = Some t \<longrightarrow>
        cv_circle lib (np_where msk t acc_img) (center c) (radius c) (mode_colors (mode c)) 2
          = Some final \<longrightarrow>
          apply_all_effects lib (e\<lparr>circles := cs @ [c]\<rparr>) src = Inr (final, printed)
        \<and> (\<forall>y x. pix (np_where msk t acc_img) y x
                    = (if val msk y x = 255 then pix t y x else pix acc_img y x)))"
proof (intro conjI impI)
  show "effects_loop lib e (cs @ [c]) acc = ebind (effects_loop lib e cs acc) (effects_loop lib e [c])"
    by (rule effects_loop_append)
next
  assume acc: "apply_all_effects lib (e\<lparr>circles := cs\<rparr>) src = Inr (acc_img, printed)"
    and m: "cv_circle_plane lib (np_zeros (rows acc_img, cols acc_img)) (center c) (radius c) 255 (- 1)
          = Some msk"
    and t: "transformed lib e (mode c) acc_img = Some t"
    and f: "cv_circle lib (np_where msk t acc_img) (center c) (radius c) (mode_colors (mode c)) 2
          = Some final"
  from acc have loop: "effects_loop lib e cs (src, []) = Inr (acc_img, printed)"
    by (simp add: apply_all_effects_def effects_loop_circles)
  have one: "effects_loop lib e [c] (acc_img, printed) = Inr (final, printed)"
    by (simp add: apply_effect_ok [OF m t] f)
  show "apply_all_effects lib (e\<lparr>circles := cs @ [c]\<rparr>) src = Inr (final, printed)"
    by (simp add: apply_all_effects_def effects_loop_circles effects_loop_append loop ebind_Inr one
        del: effects_loop.simps)
next
  show "\<forall>y x. pix (np_where msk t acc_img) y x
                 = (if val msk y x = 255 then pix t y x else pix acc_img y x)"
    by (simp add: np_where_def)
qed

theorem effects_compose_in_store_order_witness:
  "apply_all_effects stub_cv2 (init_editor\<lparr>circles := [invert_left]\<rparr>) (flat_image (10, 20, 30))
     = Inr (after_left, [])
   \<and> cv_circle_plane stub_cv2 (np_zeros (rows after_left, cols after_left))
        (center invert_right) (radius invert_right) 255 (- 1) = Some right_mask
   \<and> transformed stub_cv2 init_editor (mode invert_right) after_left = Some after_left_inverted
   \<and> cv_circle stub_cv2 (np_where right_mask after_left_inverted after_left)
        (center invert_right) (radius invert_right) (mode_colors (mode invert_right)) 2
       = Some after_right
   \<and> apply_all_effects stub_cv2 (init_editor\<lparr>circles := [invert_left, invert_right]\<rparr>)
        (flat_image (10, 20, 30)) = Inr (after_right, [])
   \<and> val right_mask 100 120 = 255
   \<and> pix after_left 100 120 = (245, 235, 225)
   \<and> pix (np_where right_mask after_left_inverted after_left) 100 120 = (10, 20, 30)"
proof -
  have h1: "apply_all_effects stub_cv2 (init_editor\<lparr>circles := [invert_left]\<rparr>)
              (flat_image (10, 20, 30)) = Inr (after_left, [])"
    by (rule stub_invert_left)
  have h2: "cv_circle_plane stub_cv2 (np_zeros (rows after_left, cols after_left))
              (center invert_right) (radius invert_right) 255 (- 1) = Some right_mask"
    by (simp add: after_left_pix right_mask_def invert_right_def stub_cv2_def)
  have h3: "transformed stub_cv2 init_editor (mode invert_right) after_left
              = Some after_left_inverted"
    by (simp add: transformed_def invert_right_def after_left_inverted_def stub_cv2_def)
  have h4: "cv_circle stub_cv2 (np_where right_mask after_left_inverted after_left)
              (center invert_right) (radius invert_right) (mode_colors (mode invert_right)) 2
            = Some after_right"
    by (simp add: after_right_def invert_right_def stub_cv2_def)
  have m: "val right_mask 100 120 = 255"
    by (simp add: right_mask_def stub_cv2_def np_zeros_def)
  have p: "pix after_left_inverted 100 120 = (10, 20, 30)"
    by (simp add: after_left_inverted_def stub_cv2_def after_left_pix)
  from effects_compose_in_store_order
         [of stub_cv2 init_editor "[invert_left]" invert_right _ "flat_image (10, 20, 30)"
             after_left "[]" right_mask after_left_inverted after_right]
       h1 h2 h3 h4
  have "apply_all_effects stub_cv2 (init_editor\<lparr>circles := [invert_left, invert_right]\<rparr>)
          (flat_image (10, 20, 30)) = Inr (after_right, [])"
    and "pix (np_where right_mask after_left_inverted after_left) 100 120
          = (if val right_mask 100 120 = 255 then pix after_left_inverted 100 120
             else pix after_left 100 120)"
    by simp_all
  with h1 h2 h3 h4 m p after_left_pix(1) show ?thesis by simp
qed

text \<open>
  C4, as stated, fails: with a block factor of zero the Pixelate branch raises, the
  diagnostic is printed and the effect skipped, but the border of the circle is drawn
  all the same (the pixel at \<open>(150, 100)\<close> on the circle takes the Pixelate colour).
\<close>

theorem failing_transform_border_drawn:
  "\<not> isl (apply_all_effects stub_cv2 pixelate_zero (flat_image (10, 20, 30)))
   \<and> snd (projr (apply_all_effects stub_cv2 pixelate_zero (flat_image (10, 20, 30))))
       = [''Error applying pixelate effect'']
   \<and> pix (fst (projr (apply_all_effects stub_cv2 pixelate_zero (flat_image (10, 20, 30))))) 100 150
       = (0, 0, 255)
   \<and> pix (flat_image (10, 20, 30)) 100 150 = (10, 20, 30)"
  by (simp add: apply_all_effects_def apply_effect_def effect_branch_def pixelate_zero_def face_circle_def
      init_editor_def stub_cv2_def flat_image_def np_zeros_def effect_error_def)

text \<open>
  C4, amended. When the mask of a circle is built and its transform raises,
  \<^verbatim>\<open>_apply_effect\<close> returns the accumulated image unchanged and prints a diagnostic
  naming the mode; the loop then draws the circle's border on that image and goes on
  with the remaining circles.
\<close>

theorem failing_transform_keeps_border:
  assumes "cv_circle_plane lib (np_zeros (rows img, cols img)) (center c) (radius c) 255 (- 1)
             = Some msk"
    and "transformed lib e (mode c) img = None"
  shows "apply_effect lib e img c = Inr (img, [effect_error (mode c)])
       \<and> (effects_loop lib e cs acc = Inr (img, printed) \<longrightarrow>
            effects_loop lib e (cs @ c # ds) acc =
              (case cv_circle lib img (center c) (radius c) (mode_colors (mode c)) 2 of
                 None \<Rightarrow> Inl CvError
               | Some outlined \<Rightarrow>
                   effects_loop lib e ds (outlined, printed @ [effect_error (mode c)])))"
proof (intro conjI impI)
  show skip: "apply_effect lib e img c = Inr (img, [effect_error (mode c)])"
    using assms by (rule apply_effect_raises)
  assume "effects_loop lib e cs acc = Inr (img, printed)"
  then show "effects_loop lib e (cs @ c # ds) acc =
      (case cv_circle lib img (center c) (radius c) (mode_colors (mode c)) 2 of
         None \<Rightarrow> Inl CvError
       | Some outlined \<Rightarrow> effects_loop lib e ds (outlined, printed @ [effect_error (mode c)]))"
    by (simp add: effects_loop_append ebind_Inr skip split: option.splits)
qed

theorem failing_transform_keeps_border_witness:
  "cv_circle_plane stub_cv2
       (np_zeros (rows (flat_image (10, 20, 30)), cols (flat_image (10, 20, 30))))
       (center face_circle) (radius face_circle) 255 (- 1) = Some face_mask
   \<and> transformed stub_cv2 pixelate_zero (mode face_circle) (flat_image (10, 20, 30)) = None
   \<and> effects_loop stub_cv2 pixelate_zero [] (flat_image (10, 20, 30), [])
       = Inr (flat_image (10, 20, 30), [])
   \<and> apply_effect stub_cv2 pixelate_zero (flat_image (10, 20, 30)) face_circle
       = Inr (flat_image (10, 20, 30), [''Error applying pixelate effect''])
   \<and> effects_loop stub_cv2 pixelate_zero [face_circle] (flat_image (10, 20, 30), [])
       = Inr (face_bordered, [''Error applying pixelate effect''])"
proof -
  have h1: "cv_circle_plane stub_cv2
       (np_zeros (rows (flat_image (10, 20, 30)), cols (flat_image (10, 20, 30))))
       (center face_circle) (radius face_circle) 255 (- 1) = Some face_mask"
    by (simp add: face_mask_def face_circle_def flat_image_def stub_cv2_def)
  have h2: "transformed stub_cv2 pixelate_zero (mode face_circle) (flat_image (10, 20, 30)) = None"
    by (simp add: transformed_def pixelate_zero_def face_circle_def)
  have h3: "effects_loop stub_cv2 pixelate_zero [] (flat_image (10, 20, 30), [])
       = Inr (flat_image (10, 20, 30), [])"
    by simp
  have b: "cv_circle stub_cv2 (flat_image (10, 20, 30)) (center face_circle) (radius face_circle)
             (mode_colors (mode face_circle)) 2 = Some face_bordered"
    by (simp add: face_bordered_def face_circle_def stub_cv2_def)
  have m: "effect_error (mode face_circle) = ''Error applying pixelate effect''"
    by (simp add: effect_error_def face_circle_def)
  from failing_transform_keeps_border [OF h1 h2, of "[]" "(flat_image (10, 20, 30), [])" "[]" "[]"]
  show ?thesis
    using h1 h2 h3 b m by (simp del: effects_loop.simps add: effects_loop.simps(1))
qed

subsection \<open>Saving and restoring the circles\<close>

lemma EditMode_of_value: "EditMode_of (PStr (mode_value m)) = Some m"
  by (cases m) (simp_all add: EditMode_of_def EditMode_members_def)

lemma EditMode_of_unknown:
  assumes "\<forall>m. v \<noteq> PStr (mode_value m)"
  shows "EditMode_of v = None"
proof -
  have "\<not> (\<exists>m\<in>set EditMode_members. PStr (mode_value m) = v)"
    using assms by auto
  then show ?thesis
    unfolding EditMode_of_def by (auto simp: find_None_iff)
qed

lemma EditMode_of_highlight: "EditMode_of (PStr ''highlight'') = Some HIGHLIGHT"
  using EditMode_of_value [of HIGHLIGHT] by simp

lemma load_object_loadable:
  assumes "loadable (PDict kvs)"
  shows "\<exists>ct r. map_of kvs ''center'' \<noteq> None
           \<and> py_iter (the (map_of kvs ''center'')) = Inr ct
           \<and> map_of kvs ''radius'' = Some r
           \<and> load_object (PDict kvs) =
               Inr \<lparr> raw_center = ct, raw_radius = r, raw_mode = mode_or_default kvs,
                     raw_label = label_or_default kvs \<rparr>"
proof -
  from assms obtain c r where c: "map_of kvs ''center'' = Some c"
    and r: "map_of kvs ''radius'' = Some r" and ok: "\<not> isl (py_iter c)"
    by (auto split: option.splits)
  from ok obtain ct where ct: "py_iter c = Inr ct"
    by (cases "py_iter c") auto
  have "load_object (PDict kvs) =
      Inr \<lparr> raw_center = ct, raw_radius = r, raw_mode = mode_or_default kvs,
            raw_label = label_or_default kvs \<rparr>"
    by (simp add: load_object_def ebind_def c r ct mode_or_default_def label_or_default_def
        EditMode_of_highlight split: option.splits)
  with c r ct show ?thesis by simp
qed




lemma load_object_export:
  "load_object (PDict [(''id'', PInt i), (''label'', PStr (label c)),
                       (''mode'', PStr (mode_value (mode c))),
                       (''center'', PList [PInt (fst (center c)), PInt (snd (center c))]),
                       (''radius'', PInt (radius c))]) = Inr (as_loaded c)"
  by (simp add: load_object_def ebind_def EditMode_of_value as_loaded_def)

lemma load_objects_export: "load_objects (export_from idx cs) = Inr (map as_loaded cs)"
  by (induction cs arbitrary: idx) (simp_all add: load_object_export ebind_def)

lemma restore_labels_data: "restore_circles (labels_data name ts cs) = map as_loaded cs"
  by (simp add: restore_circles_def load_json_def labels_data_def ebind_def load_objects_export)

lemma as_loaded_inj: "inj as_loaded"
proof (rule injI)
  fix c c' :: circle
  assume "as_loaded c = as_loaded c'"
  then have "center c = center c'" "radius c = radius c'" "mode c = mode c'" "label c = label c'"
    by (simp_all add: as_loaded_def prod_eq_iff)
  then show "c = c'" by simp
qed


lemma Blur_unknown: "\<forall>m. PStr ''Blur'' \<noteq> PStr (mode_value m)"
proof
  fix m show "PStr ''Blur'' \<noteq> PStr (mode_value m)" by (cases m) simp_all
qed

text \<open>
  C3. Restoring from the data \<^verbatim>\<open>save_current\<close> writes gives back every circle with its
  centre, radius, mode and label (\<open>as_loaded\<close> loses nothing: it is injective), in store
  order; and a record that has a centre and a radius and whose \<^verbatim>\<open>'mode'\<close> is not the
  value of any of the seven modes loads with mode Highlight.
\<close>

theorem export_round_trip:
  "restore_circles (labels_data source_image timestamp cs) = map as_loaded cs
   \<and> inj as_loaded
   \<and> ((\<forall>m. v \<noteq> PStr (mode_value m)) \<longrightarrow> map_of kvs ''mode'' = Some v \<longrightarrow> loadable (PDict kvs) \<longrightarrow>
        (\<exists>c. load_object (PDict kvs) = Inr c \<and> raw_mode c = HIGHLIGHT))"
proof (intro conjI impI)
  show "restore_circles (labels_data source_image timestamp cs) = map as_loaded cs"
    by (rule restore_labels_data)
  show "inj as_loaded" by (rule as_loaded_inj)
next
  assume v: "\<forall>m. v \<noteq> PStr (mode_value m)" and m: "map_of kvs ''mode'' = Some v"
    and l: "loadable (PDict kvs)"
  from v have "EditMode_of v = None" by (rule EditMode_of_unknown)
  with m have "mode_or_default kvs = HIGHLIGHT" by (simp add: mode_or_default_def)
  with load_object_loadable [OF l]
  show "\<exists>c. load_object (PDict kvs) = Inr c \<and> raw_mode c = HIGHLIGHT"
    by auto
qed

theorem export_round_trip_witness:
  "(\<forall>m. PStr ''Blur'' \<noteq> PStr (mode_value m))
   \<and> map_of odd_fields ''mode'' = Some (PStr ''Blur'')
   \<and> loadable (PDict odd_fields)
   \<and> (\<exists>c. load_object (PDict odd_fields) = Inr c \<and> raw_mode c = HIGHLIGHT)
   \<and> restore_circles (labels_data ''a.png'' ''2024-01-01T00:00:00''
         [\<lparr>center = (100, 100), radius = 50, mode = BLUR, label = ''face''\<rparr>])
       = [\<lparr>raw_center = [PInt 100, PInt 100], raw_radius = PInt 50, raw_mode = BLUR,
            raw_label = PStr ''face''\<rparr>]"
proof -
  have h2: "map_of odd_fields ''mode'' = Some (PStr ''Blur'')"
    by (simp add: odd_fields_def)
  have h3: "loadable (PDict odd_fields)"
    by (simp add: odd_fields_def)
  from export_round_trip
         [of "''a.png''" "''2024-01-01T00:00:00''"
             "[\<lparr>center = (100, 100), radius = 50, mode = BLUR, label = ''face''\<rparr>]"
             "PStr ''Blur''" odd_fields]
       Blur_unknown h2 h3
  show ?thesis by (simp add: as_loaded_def)
qed




subsection \<open>Label layout\<close>

lemma labels_loop_numbers:
  "map (\<lambda>d. (lb_number d, lb_text d, lb_circle d)) (labels_loop lib params image_size idx cs ex)
     = map (\<lambda>(n, c). (n, full_label n c, c)) (filter (\<lambda>(n, c). label c \<noteq> []) (enumerate idx cs))"
  by (induction cs arbitrary: idx ex) (simp_all add: Let_def)

lemma mode_shorts:
  "mode_short HIGHLIGHT = ''HIG''" "mode_short BLUR = ''BLU''" "mode_short PIXELATE = ''PIX''"
  "mode_short DARKEN = ''DAR''" "mode_short GRAYSCALE = ''GRA''" "mode_short INVERT = ''INV''"
  "mode_short OUTLINE = ''OUT''"
  unfolding mode_short_def py_upper_char_def by code_simp+

lemma str_nat_small:
  "str_nat (Suc 0) = ''1''" "str_nat (Suc (Suc 0)) = ''2''" "str_nat (Suc (Suc (Suc 0))) = ''3''"
  unfolding digit_char_def by code_simp+

lemma check_label_collision_iff:
  "check_label_collision r ex \<longleftrightarrow> (\<exists>q\<in>set ex. check_label_collision r [q])"
proof (induction ex)
  case Nil
  show ?case by simp
next
  case (Cons q ex)
  obtain x1 y1 x2 y2 where r: "r = (x1, y1, x2, y2)" by (cases r) auto
  obtain a b c d where q: "q = (a, b, c, d)" by (cases q) auto
  show ?case using Cons.IH by (simp add: r q)
qed

lemma search_position_sound:
  assumes "search_position c r text_w text_h baseline padding image_size ex = Some found"
  shows "\<not> check_label_collision (snd (snd found)) ex
       \<and> find_non_overlapping_position c r text_w text_h baseline padding image_size ex = found
       \<and> padding \<le> fst (snd (snd found))
       \<and> padding \<le> fst (snd (snd (snd found)))
       \<and> fst (snd (snd (snd (snd found)))) \<le> snd image_size - padding
       \<and> snd (snd (snd (snd (snd found)))) \<le> fst image_size - padding"
proof -
  let ?P = "position_ok text_w text_h baseline padding image_size ex"
  let ?cands = "candidate_positions (attempts c r (text_w + 2 * padding) (text_h + baseline + 2 * padding))"
  from assms obtain pos where f: "List.find ?P ?cands = Some pos"
    and found: "found = (fst pos, snd pos + text_h,
                  label_rect_at (fst pos) (snd pos + text_h) text_w text_h baseline padding)"
    by (auto simp: search_position_def Let_def split: option.splits)
  from f have ok: "?P pos" by (auto simp: find_Some_iff)
  have fnd: "find_non_overlapping_position c r text_w text_h baseline padding image_size ex = found"
    using assms by (simp add: find_non_overlapping_position_def)
  from ok fnd show ?thesis
    by (auto simp: position_ok_def Let_def found label_rect_at_def)
qed

lemma labels_loop_placement:
  assumes "j < length (labels_loop lib params image_size idx cs ex)"
  shows "(let d = labels_loop lib params image_size idx cs ex ! j
          in (lb_x d, lb_y d, lb_rect d) =
               find_non_overlapping_position (center (lb_circle d)) (radius (lb_circle d))
                 (lb_text_w d) (lb_text_h d) (lb_baseline d) (lb_padding d) image_size
                 (ex @ map lb_rect (take j (labels_loop lib params image_size idx cs ex))))"
  using assms
proof (induction cs arbitrary: idx ex j)
  case Nil
  then show ?case by simp
next
  case (Cons c cs)
  show ?case
  proof (cases "label c = []")
    case True
    with Cons.prems have "j < length (labels_loop lib params image_size (Suc idx) cs ex)" by simp
    from Cons.IH [OF this] True show ?thesis by simp
  next
    case False
    show ?thesis
    proof (cases j)
      case 0
      with False show ?thesis by (simp add: Let_def)
    next
      case (Suc k)
      define rect0 where "rect0 = snd (snd (find_non_overlapping_position (center c) (radius c)
          (fst (fst (cv_getTextSize lib (full_label idx c) (fst params) (snd params))))
          (snd (fst (cv_getTextSize lib (full_label idx c) (fst params) (snd params))))
          (snd (cv_getTextSize lib (full_label idx c) (fst params) (snd params)))
          (max 2 (py_int (4 * fst params / (1 / 2)))) image_size ex))"
      from Cons.prems False Suc
      have "k < length (labels_loop lib params image_size (Suc idx) cs (ex @ [rect0]))"
        by (simp add: Let_def rect0_def)
      from Cons.IH [OF this] False Suc show ?thesis
        by (simp add: Let_def rect0_def)
    qed
  qed
qed

lemma labels_loop_searched_free:
  assumes j: "j < length (labels_loop lib params image_size idx cs ex)"
    and s: "search_position
           (center (lb_circle (labels_loop lib params image_size idx cs ex ! j)))
           (radius (lb_circle (labels_loop lib params image_size idx cs ex ! j)))
           (lb_text_w (labels_loop lib params image_size idx cs ex ! j))
           (lb_text_h (labels_loop lib params image_size idx cs ex ! j))
           (lb_baseline (labels_loop lib params image_size idx cs ex ! j))
           (lb_padding (labels_loop lib params image_size idx cs ex ! j))
           image_size
           (ex @ map lb_rect (take j (labels_loop lib params image_size idx cs ex))) \<noteq> None"
  shows "\<not> check_label_collision (lb_rect (labels_loop lib params image_size idx cs ex ! j))
             (ex @ map lb_rect (take j (labels_loop lib params image_size idx cs ex)))"
proof -
  let ?ds = "labels_loop lib params image_size idx cs ex"
  let ?d = "?ds ! j"
  let ?prior = "ex @ map lb_rect (take j ?ds)"
  from labels_loop_placement [OF j]
  have placed: "(lb_x ?d, lb_y ?d, lb_rect ?d) =
      find_non_overlapping_position (center (lb_circle ?d)) (radius (lb_circle ?d))
        (lb_text_w ?d) (lb_text_h ?d) (lb_baseline ?d) (lb_padding ?d) image_size ?prior"
    by (simp only: Let_def)
  from s obtain found where
    found: "search_position (center (lb_circle ?d)) (radius (lb_circle ?d))
        (lb_text_w ?d) (lb_text_h ?d) (lb_baseline ?d) (lb_padding ?d) image_size ?prior = Some found"
    by auto
  from search_position_sound [OF found] placed
  show "\<not> check_label_collision (lb_rect ?d) ?prior"
    by (metis snd_conv)
qed

lemma draw_all_labels_smart_shown:
  assumes "show_labels e"
  shows "draw_all_labels_smart lib e img =
           labels_loop lib (get_dynamic_label_params (int (rows img), int (cols img)))
             (int (rows img), int (cols img)) (Suc 0) (circles e) []"
  using assms by (simp add: draw_all_labels_smart_def Let_def)

lemma giants_search:
  "search_position (500, 500) 700 100 12 4 4 (1000, 1000) ex = None"
  by (simp add: search_position_def candidate_positions_def attempts_def position_ok_def
      label_rect_at_def Let_def)

lemma giants_rects:
  "map lb_rect (draw_all_labels_smart stub_cv2 two_giants wide_image)
     = [(496, 0, 604, 24), (496, 0, 604, 24)]"
  by (simp add: draw_all_labels_smart_def two_giants_def init_editor_def wide_image_def
      get_dynamic_label_params_def py_int_def Let_def full_label_def mode_shorts str_nat_small stub_cv2_def
      find_non_overlapping_position_def giants_search last_resort_def label_rect_at_def)

lemma face_search:
  "search_position (200, 200) 50 130 12 4 4 (1000, 1000) []
     = Some (150, 128, (146, 112, 284, 136))"
  by (simp add: search_position_def candidate_positions_def attempts_def position_ok_def
      label_rect_at_def Let_def)

lemma sign_search:
  "search_position (700, 300) 60 130 12 4 4 (1000, 1000) [(146, 112, 284, 136)]
     = Some (640, 218, (636, 202, 774, 226))"
  by (simp add: search_position_def candidate_positions_def attempts_def position_ok_def
      label_rect_at_def Let_def)

lemma gap_labels:
  "draw_all_labels_smart stub_cv2 gap_in_labels wide_image = [face_label, sign_label]"
  by (simp add: draw_all_labels_smart_def gap_in_labels_def init_editor_def wide_image_def
      get_dynamic_label_params_def py_int_def Let_def full_label_def mode_shorts str_nat_small
      stub_cv2_def find_non_overlapping_position_def face_search sign_search
      face_label_def sign_label_def)

lemma of_char_digit_char: "d < 10 \<Longrightarrow> (of_char (digit_char d) :: nat) = 48 + d"
  by (simp add: digit_char_def)

lemma str_nat_value:
  "foldl (\<lambda>a ch. 10 * a + ((of_char ch :: nat) - 48)) 0 (str_nat n) = n"
proof (induction n rule: str_nat.induct)
  case (1 n)
  show ?case
  proof (cases "n < 10")
    case True
    then show ?thesis by (subst str_nat.simps) (simp add: of_char_digit_char)
  next
    case False
    with "1.IH" show ?thesis by (subst str_nat.simps) (simp add: of_char_digit_char)
  qed
qed

lemma wide_shape: "int (rows wide_image) = 1000" "int (cols wide_image) = 1000"
  by (simp_all add: wide_image_def)

text \<open>
  C6, as stated, fails: two labelled circles of radius 700 around the middle of a 1000 by
  1000 image leave no candidate position inside the image, so both labels take the
  last-resort position at the top, which is not tested against earlier rectangles: the
  two rectangles coincide, although together they cover 5184 of 1000000 pixels.
\<close>

theorem last_resort_labels_overlap:
  "map lb_rect (draw_all_labels_smart stub_cv2 two_giants wide_image)
     = [(496, 0, 604, 24), (496, 0, 604, 24)]
   \<and> check_label_collision (496, 0, 604, 24) [(496, 0, 604, 24)]
   \<and> (2 * ((604 - 496) * (24 - 0)) :: int) = 5184
   \<and> int (rows wide_image) * int (cols wide_image) = 1000000"
proof (intro conjI)
  show "map lb_rect (draw_all_labels_smart stub_cv2 two_giants wide_image)
     = [(496, 0, 604, 24), (496, 0, 604, 24)]"
    by (rule giants_rects)
  show "check_label_collision (496, 0, 604, 24) [(496, 0, 604, 24)]" by simp
  show "(2 * ((604 - 496) * (24 - 0)) :: int) = 5184" by simp
  show "int (rows wide_image) * int (cols wide_image) = 1000000"
    by (simp add: wide_image_def)
qed

text \<open>
  C6, amended. In one redraw, a label whose position is found by the candidate search
  (the search over the rectangles placed before it does not run out) has a rectangle
  that collides, within the 5 pixel buffer, with none of the rectangles placed before
  it: the search tests every candidate against all of them.
\<close>

theorem searched_labels_do_not_overlap:
  assumes "j < length (draw_all_labels_smart lib e img)" and "i < j"
    and "search_position
           (center (lb_circle (draw_all_labels_smart lib e img ! j)))
           (radius (lb_circle (draw_all_labels_smart lib e img ! j)))
           (lb_text_w (draw_all_labels_smart lib e img ! j))
           (lb_text_h (draw_all_labels_smart lib e img ! j))
           (lb_baseline (draw_all_labels_smart lib e img ! j))
           (lb_padding (draw_all_labels_smart lib e img ! j))
           (int (rows img), int (cols img))
           (map lb_rect (take j (draw_all_labels_smart lib e img))) \<noteq> None"
  shows "\<not> check_label_collision (lb_rect (draw_all_labels_smart lib e img ! j))
             [lb_rect (draw_all_labels_smart lib e img ! i)]
       \<and> \<not> check_label_collision (lb_rect (draw_all_labels_smart lib e img ! j))
             (map lb_rect (take j (draw_all_labels_smart lib e img)))"
proof -
  let ?ds = "draw_all_labels_smart lib e img"
  let ?prior = "map lb_rect (take j ?ds)"
  from assms(1) have "show_labels e"
    by (auto simp: draw_all_labels_smart_def split: if_splits)
  note eq = draw_all_labels_smart_shown [OF this, of lib img]
  have free: "\<not> check_label_collision (lb_rect (?ds ! j)) ?prior"
    using labels_loop_searched_free
            [of j lib "get_dynamic_label_params (int (rows img), int (cols img))"
                "(int (rows img), int (cols img))" "Suc 0" "circles e" "[]"]
          assms(1,3)
    by (simp only: eq append_Nil) simp
  from assms(1,2) have "i < length (take j ?ds)" by simp
  then have "lb_rect (?ds ! i) \<in> set ?prior"
    using assms(2) by (metis length_map nth_map nth_mem nth_take)
  with free have "\<not> check_label_collision (lb_rect (?ds ! j)) [lb_rect (?ds ! i)]"
    using check_label_collision_iff [of "lb_rect (?ds ! j)" ?prior] by blast
  with free show ?thesis by simp
qed

theorem searched_labels_do_not_overlap_witness:
  "Suc 0 < length (draw_all_labels_smart stub_cv2 gap_in_labels wide_image)
   \<and> (0 :: nat) < Suc 0
   \<and> search_position
        (center (lb_circle (draw_all_labels_smart stub_cv2 gap_in_labels wide_image ! Suc 0)))
        (radius (lb_circle (draw_all_labels_smart stub_cv2 gap_in_labels wide_image ! Suc 0)))
        (lb_text_w (draw_all_labels_smart stub_cv2 gap_in_labels wide_image ! Suc 0))
        (lb_text_h (draw_all_labels_smart stub_cv2 gap_in_labels wide_image ! Suc 0))
        (lb_baseline (draw_all_labels_smart stub_cv2 gap_in_labels wide_image ! Suc 0))
        (lb_padding (draw_all_labels_smart stub_cv2 gap_in_labels wide_image ! Suc 0))
        (int (rows wide_image), int (cols wide_image))
        (map lb_rect (take (Suc 0) (draw_all_labels_smart stub_cv2 gap_in_labels wide_image)))
       \<noteq> None
   \<and> lb_rect (draw_all_labels_smart stub_cv2 gap_in_labels wide_image ! 0) = (146, 112, 284, 136)
   \<and> lb_rect (draw_all_labels_smart stub_cv2 gap_in_labels wide_image ! Suc 0)
       = (636, 202, 774, 226)
   \<and> \<not> check_label_collision
         (lb_rect (draw_all_labels_smart stub_cv2 gap_in_labels wide_image ! Suc 0))
         [lb_rect (draw_all_labels_smart stub_cv2 gap_in_labels wide_image ! 0)]"
proof -
  let ?ds = "draw_all_labels_smart stub_cv2 gap_in_labels wide_image"
  have h1: "Suc 0 < length ?ds" by (simp add: gap_labels)
  have h2: "(0 :: nat) < Suc 0" by simp
  have h3: "search_position
        (center (lb_circle (?ds ! Suc 0))) (radius (lb_circle (?ds ! Suc 0)))
        (lb_text_w (?ds ! Suc 0)) (lb_text_h (?ds ! Suc 0)) (lb_baseline (?ds ! Suc 0))
        (lb_padding (?ds ! Suc 0)) (int (rows wide_image), int (cols wide_image))
        (map lb_rect (take (Suc 0) ?ds)) \<noteq> None"
    by (simp add: gap_labels sign_label_def face_label_def wide_shape sign_search)
  have r: "lb_rect (?ds ! 0) = (146, 112, 284, 136)" "lb_rect (?ds ! Suc 0) = (636, 202, 774, 226)"
    by (simp_all add: gap_labels sign_label_def face_label_def)
  from searched_labels_do_not_overlap [OF h1 h2 h3]
  have "\<not> check_label_collision (lb_rect (?ds ! Suc 0)) [lb_rect (?ds ! 0)]"
    by (rule conjunct1)
  with h1 h2 h3 r show ?thesis by (simp only: simp_thms)
qed

text \<open>
  C10. With labels shown, the labels drawn are those of the circles with a non-empty
  label, in store order, each numbered with its circle's 1-based position in the store
  and carrying the text \<open>#n [MOD] label\<close>; a circle with an empty label gets no entry
  (no rectangle, no connector) but still counts in the numbering. With labels hidden
  nothing is drawn.
\<close>

theorem labels_numbered_by_store_position:
  "map (\<lambda>d. (lb_number d, lb_text d, lb_circle d)) (draw_all_labels_smart lib e img) =
     (if show_labels e
      then map (\<lambda>(n, c). (n, full_label n c, c))
             (filter (\<lambda>(n, c). label c \<noteq> []) (enumerate 1 (circles e)))
      else [])
   \<and> (\<forall>d\<in>set (draw_all_labels_smart lib e img).
         label (lb_circle d) \<noteq> []
       \<and> 1 \<le> lb_number d \<and> lb_number d \<le> length (circles e)
       \<and> circles e ! (lb_number d - 1) = lb_circle d
       \<and> lb_text d = ''#'' @ str_nat (lb_number d) @ '' ['' @ mode_short (mode (lb_circle d))
                       @ ''] '' @ label (lb_circle d))"
proof
  show eq: "map (\<lambda>d. (lb_number d, lb_text d, lb_circle d)) (draw_all_labels_smart lib e img) =
     (if show_labels e
      then map (\<lambda>(n, c). (n, full_label n c, c))
             (filter (\<lambda>(n, c). label c \<noteq> []) (enumerate 1 (circles e)))
      else [])"
    by (simp add: draw_all_labels_smart_def Let_def labels_loop_numbers)
  show "\<forall>d\<in>set (draw_all_labels_smart lib e img).
         label (lb_circle d) \<noteq> []
       \<and> 1 \<le> lb_number d \<and> lb_number d \<le> length (circles e)
       \<and> circles e ! (lb_number d - 1) = lb_circle d
       \<and> lb_text d = ''#'' @ str_nat (lb_number d) @ '' ['' @ mode_short (mode (lb_circle d))
                       @ ''] '' @ label (lb_circle d)"
  proof
    fix d assume d: "d \<in> set (draw_all_labels_smart lib e img)"
    then have "(lb_number d, lb_text d, lb_circle d)
        \<in> set (map (\<lambda>d. (lb_number d, lb_text d, lb_circle d)) (draw_all_labels_smart lib e img))"
      by auto
    with eq have "(lb_number d, lb_text d, lb_circle d)
        \<in> set (map (\<lambda>(n, c). (n, full_label n c, c))
             (filter (\<lambda>(n, c). label c \<noteq> []) (enumerate 1 (circles e))))"
      by (auto split: if_splits)
    then obtain n c where nc: "(n, c) \<in> set (enumerate 1 (circles e))" "label c \<noteq> []"
      and same: "lb_number d = n" "lb_text d = full_label n c" "lb_circle d = c"
      by auto
    from nc(1) have "1 \<le> n" "n < length (circles e) + 1" "circles e ! (n - 1) = c"
      by (simp_all add: in_set_enumerate_eq)
    with nc(2) same show "label (lb_circle d) \<noteq> []
       \<and> 1 \<le> lb_number d \<and> lb_number d \<le> length (circles e)
       \<and> circles e ! (lb_number d - 1) = lb_circle d
       \<and> lb_text d = ''#'' @ str_nat (lb_number d) @ '' ['' @ mode_short (mode (lb_circle d))
                       @ ''] '' @ label (lb_circle d)"
      by (simp add: full_label_def)
  qed
qed

theorem labels_numbered_by_store_position_witness:
  "show_labels gap_in_labels
   \<and> map label (circles gap_in_labels) = [''face'', [], ''sign'']
   \<and> map lb_number (draw_all_labels_smart stub_cv2 gap_in_labels wide_image) = [1, 3]
   \<and> map lb_text (draw_all_labels_smart stub_cv2 gap_in_labels wide_image)
       = [''#1 [BLU] face'', ''#3 [DAR] sign'']"
proof -
  let ?ds = "draw_all_labels_smart stub_cv2 gap_in_labels wide_image"
  have s: "show_labels gap_in_labels"
    and l: "map label (circles gap_in_labels) = [''face'', [], ''sign'']"
    by (simp_all add: gap_in_labels_def init_editor_def)
  from labels_numbered_by_store_position [of stub_cv2 gap_in_labels wide_image]
  have "map (\<lambda>d. (lb_number d, lb_text d, lb_circle d)) ?ds =
      map (\<lambda>(n, c). (n, full_label n c, c))
        (filter (\<lambda>(n, c). label c \<noteq> []) (enumerate 1 (circles gap_in_labels)))"
    using s by simp
  then have t: "map (\<lambda>d. (lb_number d, lb_text d, lb_circle d)) ?ds =
      [(1, ''#1 [BLU] face'', \<lparr>center = (200, 200), radius = 50, mode = BLUR, label = ''face''\<rparr>),
       (3, ''#3 [DAR] sign'', \<lparr>center = (700, 300), radius = 60, mode = DARKEN, label = ''sign''\<rparr>)]"
    by (simp add: gap_in_labels_def init_editor_def full_label_def mode_shorts str_nat_small)
  have "map lb_number ?ds = map fst (map (\<lambda>d. (lb_number d, lb_text d, lb_circle d)) ?ds)"
    and "map lb_text ?ds = map (\<lambda>p. fst (snd p)) (map (\<lambda>d. (lb_number d, lb_text d, lb_circle d)) ?ds)"
    by (simp_all add: comp_def)
  with t have "map lb_number ?ds = [1, 3]"
    and "map lb_text ?ds = [''#1 [BLU] face'', ''#3 [DAR] sign'']"
    by simp_all
  with s l show ?thesis by simp
qed

end
